theory Spec2Isabelle
  imports Main "HOL-Library.Word"
begin

unbundle bit_operations_syntax

section \<open>Data model of core/hle/kernel/process.h\<close>

type_synonym u8 = "8 word"
type_synonym u16 = "16 word"
type_synonym u32 = "32 word"
type_synonym u64 = "64 word"
type_synonym s32 = "32 word"
type_synonym VAddr = u32

text \<open>
  \<^verbatim>\<open>struct AddressMapping { VAddr address; u32 size; bool writable; bool unk_flag; }\<close>.
  The field \<^verbatim>\<open>size\<close> is called \<open>mapping_size\<close> here, since \<open>size\<close> is a constant of HOL.
\<close>

record AddressMapping =
  address :: VAddr
  mapping_size :: u32
  writable :: bool
  unk_flag :: bool

text \<open>\<^verbatim>\<open>enum class MemoryRegion : u16 { APPLICATION = 1, SYSTEM = 2, BASE = 3 }\<close>\<close>

datatype MemoryRegion = APPLICATION | SYSTEM | BASE

definition MemoryRegion_value :: "MemoryRegion \<Rightarrow> u16" where
  "MemoryRegion_value r = (case r of APPLICATION \<Rightarrow> 1 | SYSTEM \<Rightarrow> 2 | BASE \<Rightarrow> 3)"

text \<open>
  \<^verbatim>\<open>union ProcessFlags\<close>: the 16-bit word \<^verbatim>\<open>raw\<close>, read through bit fields.
  \<^verbatim>\<open>BitField<position, bits, T>\<close> (common/bit_field.h) reads \<open>bits\<close> bits of the raw
  word starting at bit \<open>position\<close>.
\<close>

type_synonym ProcessFlags = u16

definition BitField :: "nat \<Rightarrow> nat \<Rightarrow> u16 \<Rightarrow> u16" where
  "BitField position bits raw = take_bit bits (drop_bit position raw)"

definition allow_debug :: "ProcessFlags \<Rightarrow> bool" where
  "allow_debug f = (BitField 0 1 f \<noteq> 0)"

definition force_debug :: "ProcessFlags \<Rightarrow> bool" where
  "force_debug f = (BitField 1 1 f \<noteq> 0)"

definition allow_nonalphanum :: "ProcessFlags \<Rightarrow> bool" where
  "allow_nonalphanum f = (BitField 2 1 f \<noteq> 0)"

definition shared_page_writable :: "ProcessFlags \<Rightarrow> bool" where
  "shared_page_writable f = (BitField 3 1 f \<noteq> 0)"

definition privileged_priority :: "ProcessFlags \<Rightarrow> bool" where
  "privileged_priority f = (BitField 4 1 f \<noteq> 0)"

definition allow_main_args :: "ProcessFlags \<Rightarrow> bool" where
  "allow_main_args f = (BitField 5 1 f \<noteq> 0)"

definition shared_device_mem :: "ProcessFlags \<Rightarrow> bool" where
  "shared_device_mem f = (BitField 6 1 f \<noteq> 0)"

definition runnable_on_sleep :: "ProcessFlags \<Rightarrow> bool" where
  "runnable_on_sleep f = (BitField 7 1 f \<noteq> 0)"

definition flags_memory_region :: "ProcessFlags \<Rightarrow> u16" where
  "flags_memory_region f = BitField 8 4 f"

definition loaded_high :: "ProcessFlags \<Rightarrow> bool" where
  "loaded_high f = (BitField 12 1 f \<noteq> 0)"

text \<open>
  \<^verbatim>\<open>HandleType\<close> is declared in core/hle/kernel/kernel.h; process.h names two of its
  enumerators, \<^verbatim>\<open>HandleType::CodeSet\<close> and \<^verbatim>\<open>HandleType::Process\<close>. The remaining
  enumerators are kept apart from these two by their number.
\<close>

datatype HandleType = HandleType_Process | HandleType_CodeSet | HandleType_Other nat

text \<open>\<^verbatim>\<open>struct CodeSet::Segment { size_t offset = 0; VAddr addr = 0; u32 size = 0; }\<close>\<close>

record Segment =
  offset :: nat
  addr :: VAddr
  segment_size :: u32

definition Segment_default :: Segment where
  "Segment_default = \<lparr>offset = 0, addr = 0, segment_size = 0\<rparr>"

text \<open>
  \<^verbatim>\<open>struct CodeSet\<close>: \<^verbatim>\<open>memory\<close> is a shared pointer to a byte vector, \<open>None\<close> when null.
\<close>

record CodeSet =
  name :: string
  program_id :: u64
  memory :: "u8 list option"
  code :: Segment
  rodata :: Segment
  data :: Segment
  entrypoint :: VAddr

definition CodeSet_GetTypeName :: "CodeSet \<Rightarrow> string" where
  "CodeSet_GetTypeName cs = ''CodeSet''"

definition CodeSet_GetName :: "CodeSet \<Rightarrow> string" where
  "CodeSet_GetName cs = name cs"

definition CodeSet_HANDLE_TYPE :: HandleType where
  "CodeSet_HANDLE_TYPE = HandleType_CodeSet"

definition CodeSet_GetHandleType :: "CodeSet \<Rightarrow> HandleType" where
  "CodeSet_GetHandleType cs = CodeSet_HANDLE_TYPE"


section \<open>Collaborators declared outside process.h\<close>

text \<open>
  \<^verbatim>\<open>ResourceLimit\<close> and \<^verbatim>\<open>MemoryRegionInfo\<close> are only forward-declared in process.h;
  a process holds a (possibly null) reference to each.
\<close>

typedecl ResourceLimit
typedecl MemoryRegionInfo

text \<open>
  Modelled from the spec: \<^verbatim>\<open>VMAPermission\<close> and \<^verbatim>\<open>VMManager\<close> are declared in
  core/hle/kernel/vm_manager.h, which is not among the sources. The spec names read, write
  and execute permissions, and an address-space driver with the two calls
  \<^verbatim>\<open>map(range, permissions, backing)\<close> and \<^verbatim>\<open>unmap(range)\<close>. The address space is
  a partial map from byte addresses to the permissions of what is mapped there; a range is
  free when none of its bytes is mapped, and allocated when all of them are.
\<close>

record VMAPermission =
  perm_read :: bool
  perm_write :: bool
  perm_execute :: bool

type_synonym VMManager = "nat \<Rightarrow> VMAPermission option"

definition vm_map :: "nat \<Rightarrow> nat \<Rightarrow> VMAPermission \<Rightarrow> VMManager \<Rightarrow> VMManager" where
  "vm_map a n perms vm = (\<lambda>x. if a \<le> x \<and> x < a + n then Some perms else vm x)"

definition vm_unmap :: "nat \<Rightarrow> nat \<Rightarrow> VMManager \<Rightarrow> VMManager" where
  "vm_unmap a n vm = (\<lambda>x. if a \<le> x \<and> x < a + n then None else vm x)"

definition vm_free :: "VMManager \<Rightarrow> nat \<Rightarrow> nat \<Rightarrow> bool" where
  "vm_free vm a n = (\<forall>x \<in> {a ..< a + n}. vm x = None)"

definition vm_allocated :: "VMManager \<Rightarrow> nat \<Rightarrow> nat \<Rightarrow> bool" where
  "vm_allocated vm a n = (\<forall>x \<in> {a ..< a + n}. vm x \<noteq> None)"

section \<open>The Process class\<close>

text \<open>
  The fields of \<^verbatim>\<open>class Process\<close> in declaration order. Shared pointers are options
  (\<open>None\<close> is the null pointer), \<^verbatim>\<open>std::bitset<N>\<close> is an \<open>N\<close>-bit word whose bit \<open>i\<close>
  is the bitset's element \<open>i\<close>, and the \<^verbatim>\<open>static_vector<AddressMapping, 8>\<close> is a list
  that never grows beyond eight elements.
\<close>

record Process =
  codeset :: "CodeSet option"
  resource_limit :: "ResourceLimit option"
  svc_access_mask :: "128 word"
  handle_table_size :: u32
  address_mappings :: "AddressMapping list"
  flags :: ProcessFlags
  kernel_version :: u16
  process_id :: u32
  vm_manager :: VMManager
  heap_memory :: "u8 list option"
  heap_start :: VAddr
  heap_end :: VAddr
  heap_used :: u32
  linear_heap_used :: u32
  misc_memory_used :: u32
  memory_region :: "MemoryRegionInfo option"
  used_tls_slots :: "300 word"


definition Process_GetTypeName :: "Process \<Rightarrow> string" where
  "Process_GetTypeName p = ''Process''"

text \<open>
  \<^verbatim>\<open>GetName\<close> returns \<^verbatim>\<open>codeset->name\<close>; dereferencing a null \<^verbatim>\<open>codeset\<close> has no
  defined result, which is \<open>None\<close> here.
\<close>

definition Process_GetName :: "Process \<Rightarrow> string option" where
  "Process_GetName p = (case codeset p of None \<Rightarrow> None | Some cs \<Rightarrow> Some (name cs))"

definition Process_HANDLE_TYPE :: HandleType where
  "Process_HANDLE_TYPE = HandleType_Process"

definition Process_GetHandleType :: "Process \<Rightarrow> HandleType" where
  "Process_GetHandleType p = Process_HANDLE_TYPE"

text \<open>
  Constructing a \<^verbatim>\<open>Process\<close> runs the default member initialisers of the class:
  \<^verbatim>\<open>handle_table_size = 0x200\<close>, \<^verbatim>\<open>kernel_version = 0\<close>,
  \<^verbatim>\<open>process_id = next_process_id++\<close>, \<^verbatim>\<open>heap_start = 0, heap_end = 0\<close>, the three usage
  counters \<open>0\<close>, \<^verbatim>\<open>memory_region = nullptr\<close>; pointers, bitsets and the static vector
  start empty. \<^verbatim>\<open>flags\<close> has no initialiser: its content after construction is whatever
  the storage held, the argument \<open>uninitialised\<close>. The static counter
  \<^verbatim>\<open>next_process_id\<close> is passed in and returned incremented (a \<^verbatim>\<open>u32\<close>, so the
  increment wraps).
\<close>

definition Process_construct :: "ProcessFlags \<Rightarrow> u32 \<Rightarrow> Process \<times> u32" where
  "Process_construct uninitialised next_process_id =
     (\<lparr>codeset = None,
       resource_limit = None,
       svc_access_mask = 0,
       handle_table_size = 0x200,
       address_mappings = [],
       flags = uninitialised,
       kernel_version = 0,
       process_id = next_process_id,
       vm_manager = (\<lambda>x. None),
       heap_memory = None,
       heap_start = 0,
       heap_end = 0,
       heap_used = 0,
       linear_heap_used = 0,
       misc_memory_used = 0,
       memory_region = None,
       used_tls_slots = 0\<rparr>,
      next_process_id + 1)"

text \<open>
  The kernel-wide state: the static \<^verbatim>\<open>Process::next_process_id\<close> and the processes that
  exist at the moment.
\<close>

record Kernel =
  next_process_id :: u32
  processes :: "Process list"

text \<open>
  Modelled from the spec: the body of \<^verbatim>\<open>Process::Create\<close> (process.cpp is not among the
  sources; the constructor is private, so \<^verbatim>\<open>Create\<close> is the only way to a
  \<^verbatim>\<open>Process\<close>). It constructs one process, which takes its id from the counter, binds the
  code set and sets the default flags (all clear), on an empty address space.
\<close>

definition Create :: "CodeSet \<Rightarrow> Kernel \<Rightarrow> Process \<times> Kernel" where
  "Create code_set k =
     (let (p, next_id) = Process_construct 0 (next_process_id k);
          process = p\<lparr>codeset := Some code_set, flags := 0\<rparr>
      in (process, k\<lparr>next_process_id := next_id, processes := processes k @ [process]\<rparr>))"

text \<open>
  Modelled from the spec: destruction of a process (the destructor's body is in process.cpp).
  The process releases what it owns and ceases to exist; the id counter is not touched.
\<close>

definition Destroy :: "u32 \<Rightarrow> Kernel \<Rightarrow> Kernel" where
  "Destroy pid k = k\<lparr>processes := filter (\<lambda>p. process_id p \<noteq> pid) (processes k)\<rparr>"

text \<open>
  A kernel lifetime is a sequence of creations and destructions; \<open>run_events\<close> returns the
  process ids that the creations assigned, in call order, and the final kernel state.
\<close>

datatype event = EvCreate CodeSet | EvDestroy u32

fun run_events :: "event list \<Rightarrow> Kernel \<Rightarrow> u32 list \<times> Kernel" where
  "run_events [] k = ([], k)"
| "run_events (EvCreate cs # evs) k =
     (let (p, k') = Create cs k; (ids, k'') = run_events evs k' in (process_id p # ids, k''))"
| "run_events (EvDestroy pid # evs) k = run_events evs (Destroy pid k)"

definition created_ids :: "event list \<Rightarrow> Kernel \<Rightarrow> u32 list" where
  "created_ids evs k = fst (run_events evs k)"

fun is_create :: "event \<Rightarrow> bool" where
  "is_create (EvCreate cs) = True"
| "is_create (EvDestroy pid) = False"

definition creations :: "event list \<Rightarrow> nat" where
  "creations evs = length (filter is_create evs)"


section \<open>Operations whose bodies are in process.cpp\<close>

text \<open>
  process.h declares \<^verbatim>\<open>ParseKernelCaps\<close>, \<^verbatim>\<open>HeapAllocate\<close> and \<^verbatim>\<open>HeapFree\<close> and holds
  the bitset \<^verbatim>\<open>used_tls_slots\<close>; the code that works on them is not among the sources.
  The definitions of this section follow the specification of the components instead. An
  operation takes the process and returns its result together with the process as the call
  leaves it, so that what a failed call leaves behind can be stated.
\<close>

text \<open>Modelled from the spec: the error kinds that operations report (specification 7).\<close>

datatype error =
  InvalidAddress | InvalidSize | OutOfMemory | ResourceExhausted
  | PermissionDenied | CapabilityError | InvalidArgument

subsection \<open>SlotBitmap: the TLS slot allocator\<close>

definition TLS_SLOTS :: nat where
  "TLS_SLOTS = 300"

text \<open>
  Modelled from the spec: the slot allocator over \<^verbatim>\<open>used_tls_slots\<close> (its code is not in
  process.h). \<open>Allocate\<close> returns the lowest-numbered unset index and marks it set, and
  fails with \<open>ResourceExhausted\<close> if all 300 are set; \<open>Free\<close> clears an index, and fails with
  \<open>InvalidArgument\<close> if the index is out of range or already clear.
\<close>

definition lowest_unset :: "300 word \<Rightarrow> nat option" where
  "lowest_unset slots = find (\<lambda>i. \<not> bit slots i) [0 ..< TLS_SLOTS]"

definition SlotBitmap_Allocate :: "300 word \<Rightarrow> (error + nat) \<times> 300 word" where
  "SlotBitmap_Allocate slots =
     (case lowest_unset slots of
        None \<Rightarrow> (Inl ResourceExhausted, slots)
      | Some i \<Rightarrow> (Inr i, set_bit i slots))"

definition SlotBitmap_Free :: "nat \<Rightarrow> 300 word \<Rightarrow> (error + unit) \<times> 300 word" where
  "SlotBitmap_Free i slots =
     (if TLS_SLOTS \<le> i \<or> \<not> bit slots i then (Inl InvalidArgument, slots)
      else (Inr (), unset_bit i slots))"

text \<open>\<open>n\<close> consecutive \<open>Allocate\<close> calls: their results in call order, and the bitmap left.\<close>

fun allocate_n :: "nat \<Rightarrow> 300 word \<Rightarrow> (error + nat) list \<times> 300 word" where
  "allocate_n 0 slots = ([], slots)"
| "allocate_n (Suc n) slots =
     (let (r, slots') = SlotBitmap_Allocate slots; (rs, slots'') = allocate_n n slots'
      in (r # rs, slots''))"



subsection \<open>RegionAllocator: the heap\<close>

text \<open>
  Modelled from the spec: the page size (\<^verbatim>\<open>Memory::PAGE_SIZE\<close> is not declared in
  process.h; the spec's scenarios allocate pages of \<open>0x1000\<close> bytes).
\<close>

definition PAGE_SIZE :: nat where
  "PAGE_SIZE = 0x1000"

definition page_aligned :: "u32 \<Rightarrow> bool" where
  "page_aligned x = (unat x mod PAGE_SIZE = 0)"

text \<open>
  Modelled from the spec: the allocator's choice for a zero target, the lowest address in
  \<open>[heap_start, heap_end)\<close> at which a run of \<open>n\<close> free bytes starts that ends within the
  heap bounds; and what a successful allocation at address \<open>a\<close> does.
\<close>

definition fits :: "Process \<Rightarrow> nat \<Rightarrow> nat \<Rightarrow> bool" where
  "fits p n a = (a + n \<le> unat (heap_end p) \<and> vm_free (vm_manager p) a n)"

definition lowest_free_run :: "Process \<Rightarrow> nat \<Rightarrow> nat option" where
  "lowest_free_run p n = find (fits p n) [unat (heap_start p) ..< unat (heap_end p)]"

definition commit :: "nat \<Rightarrow> u32 \<Rightarrow> VMAPermission \<Rightarrow> Process \<Rightarrow> (error + VAddr) \<times> Process" where
  "commit a size_bytes perms p =
     (Inr (word_of_nat a),
      p\<lparr>vm_manager := vm_map a (unat size_bytes) perms (vm_manager p),
        heap_used := heap_used p + size_bytes\<rparr>)"

text \<open>
  Modelled from the spec: the body of \<^verbatim>\<open>Process::HeapAllocate\<close> (specification 4.3). Size
  and target must be page-aligned and the size non-zero, otherwise \<open>InvalidSize\<close>. With a
  zero target the allocator chooses the lowest address of the heap with a free run of
  \<open>size\<close> bytes, and fails with \<open>OutOfMemory\<close> when there is none. A non-zero target must
  lie with its range within the heap bounds (\<open>OutOfMemory\<close>) and be free (\<open>InvalidAddress\<close>:
  an occupied range). On success the range is mapped with the given permissions,
  \<^verbatim>\<open>heap_used\<close> grows by the size and the address is returned. A failed call leaves the
  process as it was. The resource-limit collaborator is outside the component and not
  consulted here.
\<close>

definition HeapAllocate :: "VAddr \<Rightarrow> u32 \<Rightarrow> VMAPermission \<Rightarrow> Process \<Rightarrow> (error + VAddr) \<times> Process" where
  "HeapAllocate target size_bytes perms p =
     (if size_bytes = 0 \<or> \<not> page_aligned size_bytes \<or> \<not> page_aligned target
      then (Inl InvalidSize, p)
      else if target = 0 then
        (case lowest_free_run p (unat size_bytes) of
           None \<Rightarrow> (Inl OutOfMemory, p)
         | Some a \<Rightarrow> commit a size_bytes perms p)
      else if unat target < unat (heap_start p)
              \<or> unat (heap_end p) < unat target + unat size_bytes
      then (Inl OutOfMemory, p)
      else if \<not> vm_free (vm_manager p) (unat target) (unat size_bytes)
      then (Inl InvalidAddress, p)
      else commit (unat target) size_bytes perms p)"

text \<open>
  Modelled from the spec: the body of \<^verbatim>\<open>Process::HeapFree\<close>. It unmaps
  \<open>[target, target + size)\<close> and decrements \<^verbatim>\<open>heap_used\<close>, and fails with
  \<open>InvalidAddress\<close> if the range is not fully allocated.
\<close>

definition HeapFree :: "VAddr \<Rightarrow> u32 \<Rightarrow> Process \<Rightarrow> (error + unit) \<times> Process" where
  "HeapFree target size_bytes p =
     (if \<not> vm_allocated (vm_manager p) (unat target) (unat size_bytes)
      then (Inl InvalidAddress, p)
      else (Inr (),
            p\<lparr>vm_manager := vm_unmap (unat target) (unat size_bytes) (vm_manager p),
              heap_used := heap_used p - size_bytes\<rparr>))"

subsection \<open>KernelCapabilityParser\<close>












subsection \<open>Reachable process states\<close>




text \<open>
  Modelled from the spec: a fresh process with its heap region. process.h starts both heap
  bounds at \<open>0\<close>, and none of the operations above moves them; which code gives a process
  its heap region is neither in process.h nor described in the specification, whose heap
  scenario starts from ``a fresh process with \<open>heap_start = 0x08000000\<close>,
  \<open>heap_end = 0x10000000\<close>''. A fresh process is what \<^verbatim>\<open>Create\<close> returns, with the bounds of
  the region it has been given; these are the states that sequences of operations start from.
\<close>

definition fresh_process :: "CodeSet \<Rightarrow> Kernel \<Rightarrow> VAddr \<Rightarrow> VAddr \<Rightarrow> Process" where
  "fresh_process code_set k region_start region_end =
     (fst (Create code_set k))\<lparr>heap_start := region_start, heap_end := region_end\<rparr>"

text \<open>
  Fixtures for the concrete instances below: a code set with one page of code at
  \<open>0x00100000\<close>, and a kernel that has just booted with the counter at zero.
\<close>

definition sample_codeset :: CodeSet where
  "sample_codeset =
     \<lparr>name = ''sample'', program_id = 0x0004000000030000, memory = Some (replicate 4096 0),
      code = \<lparr>offset = 0, addr = 0x00100000, segment_size = 0x1000\<rparr>,
      rodata = Segment_default, data = Segment_default, entrypoint = 0x00100000\<rparr>"

definition booted_kernel :: Kernel where
  "booted_kernel = \<lparr>next_process_id = 0, processes = []\<rparr>"

text \<open>
  A process as the specification's heap scenario has it: fresh, with the heap bounds
  \<open>0x08000000\<close> and \<open>0x10000000\<close>; and read-write permissions.
\<close>

definition sample_process :: Process where
  "sample_process = fresh_process sample_codeset booted_kernel 0x08000000 0x10000000"

definition read_write :: VMAPermission where
  "read_write = \<lparr>perm_read = True, perm_write = True, perm_execute = False\<rparr>"


section \<open>Process identifiers\<close>

lemma created_ids_eq:
  "created_ids evs k = map (\<lambda>n. next_process_id k + of_nat n) [0..<creations evs]"
proof (induction evs k rule: run_events.induct)
  case (1 k) show ?case by (simp add: created_ids_def creations_def)
next
  case (2 cs evs k)
  obtain p k' where c: "Create cs k = (p, k')" by (cases "Create cs k")
  have pid: "process_id p = next_process_id k" and nk: "next_process_id k' = next_process_id k + 1"
    using c by (auto simp: Create_def Process_construct_def Let_def)
  have ih: "created_ids evs k' = map (\<lambda>n. next_process_id k' + of_nat n) [0..<creations evs]"
    using 2 c by simp
  have "created_ids (EvCreate cs # evs) k = process_id p # created_ids evs k'"
    using c by (simp add: created_ids_def split: prod.splits)
  also have "\<dots> = next_process_id k # map (\<lambda>n. next_process_id k + of_nat (Suc n)) [0..<creations evs]"
    by (simp add: ih pid nk add.assoc add.commute)
  also have "\<dots> = map (\<lambda>n. next_process_id k + of_nat n) [0..<Suc (creations evs)]"
    by (simp only: upt_conv_Cons [of 0] map_Suc_upt [symmetric] list.map) simp
  finally show ?case by (simp add: creations_def)
next
  case (3 pid evs k)
  then show ?case by (simp add: created_ids_def Destroy_def creations_def)
qed


lemma creations_replicate: "creations (replicate m (EvCreate cs)) = m"
  by (simp add: creations_def)

lemma unat_id_offset: "unat (c + word_of_nat n :: u32) = (unat c + n) mod 2 ^ 32"
  by (simp add: unat_word_ariths unat_of_nat mod_add_right_eq)

text \<open>
  C9. Process ids come from post-incrementing the 32-bit counter \<^verbatim>\<open>next_process_id\<close>: in any
  sequence of creations and destructions, the \<open>(n+1)\<close>-th created process receives the id
  (initial counter \<open>+ n\<close>) modulo \<open>2^32\<close>, so the id assigned \<open>2^32\<close> creations later is
  the same one again.
\<close>

theorem process_id_post_increment:
  "map unat (created_ids evs k) =
     map (\<lambda>n. (unat (next_process_id k) + n) mod 2 ^ 32) [0..<creations evs]
   \<and> (n + 2 ^ 32 < creations evs \<longrightarrow>
        created_ids evs k ! (n + 2 ^ 32) = created_ids evs k ! n)"
proof
  show "map unat (created_ids evs k) =
     map (\<lambda>n. (unat (next_process_id k) + n) mod 2 ^ 32) [0..<creations evs]"
    by (simp add: created_ids_eq unat_id_offset del: of_nat_add)
next
  show "n + 2 ^ 32 < creations evs \<longrightarrow>
        created_ids evs k ! (n + 2 ^ 32) = created_ids evs k ! n"
  proof
    assume h: "n + 2 ^ 32 < creations evs"
    then have n: "n < creations evs" by simp
    have "(word_of_nat (n + 2 ^ 32) :: u32) = word_of_nat n"
      by (simp add: word_of_nat_eq_iff take_bit_eq_mod)
    then show "created_ids evs k ! (n + 2 ^ 32) = created_ids evs k ! n"
      using h n by (simp add: created_ids_eq del: of_nat_add)
  qed
qed

theorem process_id_post_increment_witness:
  "(0::nat) + 2 ^ 32 < creations (replicate (2 ^ 32 + 1) (EvCreate sample_codeset))
   \<and> created_ids (replicate (2 ^ 32 + 1) (EvCreate sample_codeset)) booted_kernel ! (0 + 2 ^ 32)
     = created_ids (replicate (2 ^ 32 + 1) (EvCreate sample_codeset)) booted_kernel ! 0"
  using process_id_post_increment [of "replicate (2 ^ 32 + 1) (EvCreate sample_codeset)" booted_kernel 0]
  by (simp add: creations_replicate)

text \<open>
  C1, as amended. As long as the creations do not take the 32-bit counter past \<open>2^32\<close>
  (initial counter plus number of \<^verbatim>\<open>Create\<close> calls at most \<open>2^32\<close>), the ids assigned are
  strictly increasing in call order and pairwise distinct, whatever destructions happen in
  between: an id is not assigned again after its owner is destroyed.
\<close>

theorem process_ids_increasing_until_wrap:
  assumes "unat (next_process_id k) + creations evs \<le> 2 ^ 32"
  shows "sorted_wrt (<) (created_ids evs k) \<and> distinct (created_ids evs k)"
proof -
  let ?c = "next_process_id k"
  have u: "unat (?c + word_of_nat n) = unat ?c + n" if "n < creations evs" for n
    using that assms by (simp add: unat_id_offset del: of_nat_add)
  have s: "sorted_wrt (<) (created_ids evs k)"
    unfolding created_ids_eq sorted_wrt_iff_nth_less
    by (auto simp: word_less_nat_alt u simp del: of_nat_add)
  have "distinct (created_ids evs k)"
    using s by (simp add: strict_sorted_iff)
  with s show ?thesis by simp
qed


theorem process_ids_increasing_until_wrap_witness:
  "unat (next_process_id booted_kernel)
     + creations [EvCreate sample_codeset, EvDestroy 0, EvCreate sample_codeset] \<le> 2 ^ 32
   \<and> sorted_wrt (<) (created_ids [EvCreate sample_codeset, EvDestroy 0, EvCreate sample_codeset] booted_kernel)
   \<and> distinct (created_ids [EvCreate sample_codeset, EvDestroy 0, EvCreate sample_codeset] booted_kernel)
   \<and> created_ids [EvCreate sample_codeset, EvDestroy 0, EvCreate sample_codeset] booted_kernel = [0, 1]"
  using process_ids_increasing_until_wrap
    [of booted_kernel "[EvCreate sample_codeset, EvDestroy 0, EvCreate sample_codeset]"]
  by (simp add: booted_kernel_def creations_def created_ids_def Create_def Destroy_def
      Process_construct_def Let_def)

text \<open>
  Without that bound the claim fails: from a counter of zero, create a process, destroy it and
  create \<open>2^32\<close> more. The creation number \<open>2^32\<close> receives \<open>0xFFFFFFFF\<close>, and the next
  one receives \<open>0\<close>, the id of the first, destroyed process.
\<close>

theorem process_ids_wrap_counterexample:
  "created_ids (EvCreate sample_codeset # EvDestroy 0 # replicate (2 ^ 32) (EvCreate sample_codeset))
      booted_kernel ! 0 = 0
   \<and> created_ids (EvCreate sample_codeset # EvDestroy 0 # replicate (2 ^ 32) (EvCreate sample_codeset))
      booted_kernel ! (2 ^ 32 - 1) = 0xFFFFFFFF
   \<and> created_ids (EvCreate sample_codeset # EvDestroy 0 # replicate (2 ^ 32) (EvCreate sample_codeset))
      booted_kernel ! (2 ^ 32) = 0
   \<and> \<not> distinct (created_ids
        (EvCreate sample_codeset # EvDestroy 0 # replicate (2 ^ 32) (EvCreate sample_codeset))
        booted_kernel)
   \<and> \<not> sorted_wrt (<) (created_ids
        (EvCreate sample_codeset # EvDestroy 0 # replicate (2 ^ 32) (EvCreate sample_codeset))
        booted_kernel)"
proof -
  let ?evs = "EvCreate sample_codeset # EvDestroy 0 # replicate (2 ^ 32) (EvCreate sample_codeset)"
  let ?ids = "created_ids ?evs booted_kernel"
  have n: "creations ?evs = 2 ^ 32 + 1"
    by (simp add: creations_def)
  have ids: "?ids = map (\<lambda>n. word_of_nat n) [0..<2 ^ 32 + 1]"
    unfolding created_ids_eq n by (simp add: booted_kernel_def)
  have len: "length ?ids = 2 ^ 32 + 1"
    unfolding ids by simp
  have a: "?ids ! 0 = 0"
    unfolding ids by (subst nth_map) simp_all
  have b: "?ids ! (2 ^ 32 - 1) = 0xFFFFFFFF"
    unfolding ids by (subst nth_map) simp_all
  have c: "?ids ! (2 ^ 32) = 0"
    unfolding ids by (subst nth_map) simp_all
  have d: "\<not> distinct ?ids"
  proof
    assume "distinct ?ids"
    then have "?ids ! 0 \<noteq> ?ids ! (2 ^ 32)"
      unfolding distinct_conv_nth len by (simp del: nth_Cons_0)
    with a c show False by simp
  qed
  have e: "\<not> sorted_wrt (<) ?ids"
    using d by (auto simp: strict_sorted_iff)
  from a b c d e show ?thesis by blast
qed

section \<open>Names and handle types\<close>

text \<open>
  C10. A process whose \<^verbatim>\<open>codeset\<close> reference is set returns the name of its code set from
  \<^verbatim>\<open>GetName\<close>, \<open>''Process''\<close> from \<^verbatim>\<open>GetTypeName\<close> and \<^verbatim>\<open>HandleType::Process\<close> from
  \<^verbatim>\<open>GetHandleType\<close>; every code set returns \<^verbatim>\<open>HandleType::CodeSet\<close> and its own
  \<^verbatim>\<open>name\<close> field.
\<close>

theorem object_names_and_handle_types:
  "codeset p = Some cs \<Longrightarrow>
     Process_GetName p = Some (name cs)
   \<and> Process_GetTypeName p = ''Process''
   \<and> Process_GetHandleType p = HandleType_Process
   \<and> CodeSet_GetHandleType cs' = HandleType_CodeSet
   \<and> CodeSet_GetName cs' = name cs'"
  by (simp add: Process_GetName_def Process_GetTypeName_def Process_GetHandleType_def
      Process_HANDLE_TYPE_def CodeSet_GetHandleType_def CodeSet_HANDLE_TYPE_def CodeSet_GetName_def)

theorem object_names_and_handle_types_witness:
  "codeset (fst (Create sample_codeset booted_kernel)) = Some sample_codeset
   \<and> Process_GetName (fst (Create sample_codeset booted_kernel)) = Some ''sample''
   \<and> Process_GetTypeName (fst (Create sample_codeset booted_kernel)) = ''Process''
   \<and> Process_GetHandleType (fst (Create sample_codeset booted_kernel)) = HandleType_Process
   \<and> CodeSet_GetHandleType sample_codeset = HandleType_CodeSet
   \<and> CodeSet_GetName sample_codeset = ''sample''"
proof -
  have h: "codeset (fst (Create sample_codeset booted_kernel)) = Some sample_codeset"
    by (simp add: Create_def Process_construct_def Let_def)
  show ?thesis
    using h object_names_and_handle_types [OF h, of sample_codeset]
    by (simp add: sample_codeset_def)
qed

section \<open>State after creation\<close>

text \<open>
  C8. The constructor's default member initialisers leave \<^verbatim>\<open>handle_table_size\<close> at \<open>0x200 = 512\<close>
  and the bitset \<^verbatim>\<open>svc_access_mask\<close> empty, and so is the process that \<^verbatim>\<open>Process::Create\<close>
  returns, before any capability is parsed: its \<^verbatim>\<open>handle_table_size\<close> is \<open>512\<close> and every bit
  of its \<^verbatim>\<open>svc_access_mask\<close> is clear.
\<close>

theorem create_defaults:
  "handle_table_size (fst (Process_construct uninitialised counter)) = 512
   \<and> svc_access_mask (fst (Process_construct uninitialised counter)) = 0
   \<and> handle_table_size (fst (Create code_set k)) = 512
   \<and> svc_access_mask (fst (Create code_set k)) = 0
   \<and> (\<forall>i. \<not> bit (svc_access_mask (fst (Create code_set k))) i)"
  by (simp add: Create_def Process_construct_def Let_def)

section \<open>The TLS slot allocator\<close>

lemma lowest_unset_Some_iff:
  "lowest_unset slots = Some j \<longleftrightarrow> j < 300 \<and> \<not> bit slots j \<and> (\<forall>m<j. bit slots m)"
  unfolding lowest_unset_def TLS_SLOTS_def find_Some_iff
  by auto

lemma lowest_unset_None_iff:
  "lowest_unset slots = None \<longleftrightarrow> (\<forall>m<300. bit slots m)"
  unfolding lowest_unset_def TLS_SLOTS_def find_None_iff
  by auto

lemma lowest_unset_mask: "k < 300 \<Longrightarrow> lowest_unset (mask k) = Some k"
  by (simp add: lowest_unset_Some_iff bit_mask_iff)

lemma lowest_unset_full: "lowest_unset (mask 300) = None"
  by (simp add: lowest_unset_None_iff bit_mask_iff)

lemma set_bit_mask: "set_bit k (mask k :: 300 word) = mask (Suc k)"
  by (rule bit_eqI) (auto simp: bit_set_bit_iff bit_mask_iff)

lemma allocate_mask:
  "k < 300 \<Longrightarrow> SlotBitmap_Allocate (mask k) = (Inr k, mask (Suc k))"
  by (simp add: SlotBitmap_Allocate_def lowest_unset_mask set_bit_mask)

lemma allocate_full:
  "SlotBitmap_Allocate (mask 300) = (Inl ResourceExhausted, mask 300)"
  by (simp add: SlotBitmap_Allocate_def lowest_unset_full)

lemma allocate_n_mask:
  "k + n \<le> 300 \<Longrightarrow> allocate_n n (mask k) = (map Inr [k ..< k + n], mask (k + n))"
proof (induction n arbitrary: k)
  case 0
  then show ?case by simp
next
  case (Suc n)
  then have k: "k < 300" and ih: "allocate_n n (mask (Suc k)) = (map Inr [Suc k ..< Suc k + n], mask (Suc k + n))"
    by simp_all
  show ?case
    by (simp add: allocate_mask [OF k] ih upt_conv_Cons del: upt_Suc)
qed

lemma allocate_n_add:
  "allocate_n (m + n) s =
     (fst (allocate_n m s) @ fst (allocate_n n (snd (allocate_n m s))),
      snd (allocate_n n (snd (allocate_n m s))))"
  by (induction m arbitrary: s) (simp_all add: Let_def split: prod.splits)

lemma free_then_allocate:
  assumes "i < 300"
  shows "SlotBitmap_Free i (mask 300) = (Inr (), unset_bit i (mask 300))"
    and "SlotBitmap_Allocate (unset_bit i (mask 300)) = (Inr i, mask 300)"
proof -
  show "SlotBitmap_Free i (mask 300) = (Inr (), unset_bit i (mask 300))"
    using assms by (simp add: SlotBitmap_Free_def TLS_SLOTS_def bit_mask_iff)
  have l: "lowest_unset (unset_bit i (mask 300)) = Some i"
    using assms by (simp add: lowest_unset_Some_iff bit_unset_bit_iff bit_mask_iff)
  have s: "set_bit i (unset_bit i (mask 300 :: 300 word)) = mask 300"
    using assms by (intro bit_eqI) (auto simp: bit_set_bit_iff bit_unset_bit_iff bit_mask_iff)
  show "SlotBitmap_Allocate (unset_bit i (mask 300)) = (Inr i, mask 300)"
    by (simp add: SlotBitmap_Allocate_def l s)
qed

text \<open>
  C6. Starting from the empty bitmap, 300 consecutive \<open>Allocate\<close> calls succeed and return
  \<open>0, 1, \<dots>, 299\<close>; every successful \<open>Allocate\<close> returns the lowest-numbered unset index and
  marks it set; the 301st call fails with \<open>ResourceExhausted\<close>; and after freeing any one slot
  \<open>i\<close> of the full bitmap, the next \<open>Allocate\<close> returns \<open>i\<close> and the one after it fails again.
\<close>

theorem tls_slot_exhaustion:
  "fst (allocate_n 300 0) = map Inr [0 ..< 300]
   \<and> (SlotBitmap_Allocate slots = (Inr j, slots') \<longrightarrow>
        j < 300 \<and> \<not> bit slots j \<and> (\<forall>m<j. bit slots m) \<and> slots' = set_bit j slots)
   \<and> fst (allocate_n 301 0) = map Inr [0 ..< 300] @ [Inl ResourceExhausted]
   \<and> (i < 300 \<longrightarrow>
        fst (SlotBitmap_Free i (snd (allocate_n 300 0))) = Inr ()
        \<and> fst (allocate_n 2 (snd (SlotBitmap_Free i (snd (allocate_n 300 0)))))
            = [Inr i, Inl ResourceExhausted])"
proof -
  have a300: "allocate_n 300 0 = (map Inr [0 ..< 300], mask 300)"
    using allocate_n_mask [of 0 300] by simp
  have a301: "allocate_n 301 0 = (map Inr [0 ..< 300] @ [Inl ResourceExhausted], mask 300)"
    using allocate_n_add [of 300 1 0] by (simp add: a300 allocate_full)
  have lowest: "SlotBitmap_Allocate slots = (Inr j, slots') \<longrightarrow>
        j < 300 \<and> \<not> bit slots j \<and> (\<forall>m<j. bit slots m) \<and> slots' = set_bit j slots"
    by (auto simp: SlotBitmap_Allocate_def lowest_unset_Some_iff split: option.splits)
  have freed: "fst (SlotBitmap_Free i (snd (allocate_n 300 0))) = Inr ()
        \<and> fst (allocate_n 2 (snd (SlotBitmap_Free i (snd (allocate_n 300 0)))))
            = [Inr i, Inl ResourceExhausted]" if "i < 300"
    using free_then_allocate [OF that]
    by (simp add: a300 numeral_2_eq_2 allocate_full)
  from a300 a301 lowest freed show ?thesis by simp
qed

theorem tls_slot_exhaustion_witness:
  "SlotBitmap_Allocate 0 = (Inr 0, 1)
   \<and> (0::nat) < 300 \<and> \<not> bit (0 :: 300 word) 0 \<and> (1 :: 300 word) = set_bit 0 0
   \<and> (7::nat) < 300
   \<and> fst (SlotBitmap_Free 7 (snd (allocate_n 300 0))) = Inr ()
   \<and> fst (allocate_n 2 (snd (SlotBitmap_Free 7 (snd (allocate_n 300 0)))))
        = [Inr 7, Inl ResourceExhausted]"
proof -
  have h: "SlotBitmap_Allocate 0 = (Inr 0, 1)"
    using allocate_mask [of 0] by simp
  show ?thesis
    using h tls_slot_exhaustion [of 0 0 1 7] by simp
qed

section \<open>The heap allocator\<close>

lemma lowest_free_run_Some:
  assumes "lowest_free_run p n = Some a"
  shows "unat (heap_start p) \<le> a" and "a < unat (heap_end p)" and "fits p n a"
    and "\<And>b. unat (heap_start p) \<le> b \<Longrightarrow> b < a \<Longrightarrow> \<not> fits p n b"
proof -
  from assms obtain i where i: "i < unat (heap_end p) - unat (heap_start p)"
    and a: "a = unat (heap_start p) + i" and f: "fits p n a"
    and low: "\<forall>j<i. \<not> fits p n (unat (heap_start p) + j)"
    unfolding lowest_free_run_def find_Some_iff by auto
  show "unat (heap_start p) \<le> a" "a < unat (heap_end p)" "fits p n a"
    using i a f by simp_all
  fix b assume "unat (heap_start p) \<le> b" "b < a"
  then show "\<not> fits p n b"
    using low [rule_format, of "b - unat (heap_start p)"] a by simp
qed

lemma lowest_free_run_None:
  "lowest_free_run p n = None \<longleftrightarrow>
     (\<forall>a. unat (heap_start p) \<le> a \<and> a < unat (heap_end p) \<longrightarrow> \<not> fits p n a)"
  unfolding lowest_free_run_def find_None_iff by auto

lemma unat_heap_address: "a < unat (e :: u32) \<Longrightarrow> unat (word_of_nat a :: u32) = a"
  by (metis le_unat_uoi less_imp_le_nat)

lemma HeapAllocate_success:
  assumes "HeapAllocate target size_bytes perms p = (Inr a, p')"
  shows "size_bytes \<noteq> 0" and "page_aligned size_bytes" and "page_aligned target"
    and "target \<noteq> 0 \<Longrightarrow> a = target"
    and "unat (heap_start p) \<le> unat a"
    and "unat a + unat size_bytes \<le> unat (heap_end p)"
    and "vm_free (vm_manager p) (unat a) (unat size_bytes)"
    and "p' = p\<lparr>vm_manager := vm_map (unat a) (unat size_bytes) perms (vm_manager p),
                heap_used := heap_used p + size_bytes\<rparr>"
proof -
  show s: "size_bytes \<noteq> 0" and "page_aligned size_bytes" and "page_aligned target"
    using assms by (auto simp: HeapAllocate_def split: if_splits)
  show "target \<noteq> 0 \<Longrightarrow> a = target"
    using assms by (auto simp: HeapAllocate_def commit_def split: if_splits)
  have "unat (heap_start p) \<le> unat a \<and> unat a + unat size_bytes \<le> unat (heap_end p)
      \<and> vm_free (vm_manager p) (unat a) (unat size_bytes)
      \<and> p' = p\<lparr>vm_manager := vm_map (unat a) (unat size_bytes) perms (vm_manager p),
                heap_used := heap_used p + size_bytes\<rparr>"
  proof (cases "target = 0")
    case True
    with assms obtain a0 where l: "lowest_free_run p (unat size_bytes) = Some a0"
      and c: "commit a0 size_bytes perms p = (Inr a, p')"
      by (auto simp: HeapAllocate_def split: if_splits option.splits)
    note r = lowest_free_run_Some [OF l]
    have "unat a = a0"
      using c r(2) by (auto simp: commit_def unat_heap_address)
    then show ?thesis
      using c r by (auto simp: commit_def fits_def)
  next
    case False
    with assms show ?thesis
      by (auto simp: HeapAllocate_def commit_def split: if_splits)
  qed
  then show "unat (heap_start p) \<le> unat a"
    and "unat a + unat size_bytes \<le> unat (heap_end p)"
    and "vm_free (vm_manager p) (unat a) (unat size_bytes)"
    and "p' = p\<lparr>vm_manager := vm_map (unat a) (unat size_bytes) perms (vm_manager p),
                heap_used := heap_used p + size_bytes\<rparr>"
    by simp_all
qed





lemma sample_process_fields:
  "heap_start sample_process = 0x08000000" "heap_end sample_process = 0x10000000"
  "vm_manager sample_process = (\<lambda>x. None)" "heap_used sample_process = 0"
  by (simp_all add: sample_process_def fresh_process_def Create_def Process_construct_def Let_def)

lemma vm_unmap_map: "vm_free vm a n \<Longrightarrow> vm_unmap a n (vm_map a n perms vm) = vm"
  by (auto simp: vm_unmap_def vm_map_def vm_free_def fun_eq_iff)

lemma vm_allocated_map: "vm_allocated (vm_map a n perms vm) a n"
  by (simp add: vm_allocated_def vm_map_def)

lemma vm_free_sub: "vm_free vm a n \<Longrightarrow> a \<le> b \<Longrightarrow> b + m \<le> a + n \<Longrightarrow> vm_free vm b m"
  by (auto simp: vm_free_def)

lemma HeapFree_after_HeapAllocate:
  assumes "HeapAllocate target size_bytes perms p = (Inr a, p')"
  shows "HeapFree a size_bytes p' = (Inr (), p)"
proof -
  note s = HeapAllocate_success [OF assms]
  show ?thesis
    unfolding s(8) by (simp add: HeapFree_def vm_allocated_map vm_unmap_map [OF s(7)])
qed








text \<open>
  C3. After a successful \<^verbatim>\<open>HeapAllocate\<close> that returned \<open>a\<close>, \<^verbatim>\<open>HeapFree(a, size)\<close> succeeds,
  \<^verbatim>\<open>heap_used\<close> is back at its value before the allocation, and the range is free: a later
  \<^verbatim>\<open>HeapAllocate\<close> of a page-aligned range inside it succeeds at the requested address, and
  one of the same or a smaller size that leaves the choice to the allocator succeeds too.
\<close>

theorem heap_free_round_trip:
  assumes "HeapAllocate target size_bytes perms p = (Inr a, p')"
  shows "fst (HeapFree a size_bytes p') = Inr ()
    \<and> heap_used (snd (HeapFree a size_bytes p')) = heap_used p
    \<and> vm_free (vm_manager (snd (HeapFree a size_bytes p'))) (unat a) (unat size_bytes)
    \<and> (size' \<noteq> 0 \<and> page_aligned size' \<and> page_aligned target' \<and> target' \<noteq> 0
        \<and> unat a \<le> unat target' \<and> unat target' + unat size' \<le> unat a + unat size_bytes \<longrightarrow>
          fst (HeapAllocate target' size' perms' (snd (HeapFree a size_bytes p'))) = Inr target')
    \<and> (size' \<noteq> 0 \<and> page_aligned size' \<and> size' \<le> size_bytes \<longrightarrow>
          (\<exists>b. fst (HeapAllocate 0 size' perms' (snd (HeapFree a size_bytes p'))) = Inr b))"
proof -
  note s = HeapAllocate_success [OF assms]
  note f = HeapFree_after_HeapAllocate [OF assms]
  have inside: "fst (HeapAllocate target' size' perms' p) = Inr target'"
    if "size' \<noteq> 0" "page_aligned size'" "page_aligned target'" "target' \<noteq> 0"
      "unat a \<le> unat target'" "unat target' + unat size' \<le> unat a + unat size_bytes"
  proof -
    have "vm_free (vm_manager p) (unat target') (unat size')"
      using s(7) that(5,6) by (rule vm_free_sub)
    then show ?thesis
      using that s(5,6) by (simp add: HeapAllocate_def commit_def)
  qed
  have chosen: "\<exists>b. fst (HeapAllocate 0 size' perms' p) = Inr b"
    if "size' \<noteq> 0" "page_aligned size'" "size' \<le> size_bytes"
  proof -
    have le: "unat size' \<le> unat size_bytes"
      using that(3) by (simp add: word_le_nat_alt)
    have "unat size_bytes \<noteq> 0"
      using s(1) by (simp add: unat_eq_0)
    then have lt: "unat a < unat (heap_end p)"
      using s(6) by simp
    have "fits p (unat size') (unat a)"
      unfolding fits_def using s(6) le vm_free_sub [OF s(7), of "unat a" "unat size'"] by simp
    then have "lowest_free_run p (unat size') \<noteq> None"
      using s(5) lt by (auto simp: lowest_free_run_None)
    then show ?thesis
      using that by (auto simp: HeapAllocate_def commit_def page_aligned_def)
  qed
  from s(7) inside chosen show ?thesis
    unfolding f by simp
qed

theorem heap_free_round_trip_witness:
  "HeapAllocate 0x08000000 0x2000 read_write sample_process =
     (Inr 0x08000000, snd (HeapAllocate 0x08000000 0x2000 read_write sample_process))
   \<and> fst (HeapFree 0x08000000 0x2000 (snd (HeapAllocate 0x08000000 0x2000 read_write sample_process)))
       = Inr ()
   \<and> heap_used (snd (HeapFree 0x08000000 0x2000
        (snd (HeapAllocate 0x08000000 0x2000 read_write sample_process)))) = 0
   \<and> fst (HeapAllocate 0x08001000 0x1000 read_write (snd (HeapFree 0x08000000 0x2000
        (snd (HeapAllocate 0x08000000 0x2000 read_write sample_process))))) = Inr 0x08001000"
proof -
  have h: "HeapAllocate 0x08000000 0x2000 read_write sample_process =
     (Inr 0x08000000, snd (HeapAllocate 0x08000000 0x2000 read_write sample_process))"
    by (simp add: HeapAllocate_def commit_def page_aligned_def PAGE_SIZE_def vm_free_def
      sample_process_fields)
  have side: "(0x1000 :: u32) \<noteq> 0 \<and> page_aligned 0x1000 \<and> page_aligned 0x08001000
      \<and> (0x08001000 :: u32) \<noteq> 0 \<and> unat (0x08000000 :: u32) \<le> unat (0x08001000 :: u32)
      \<and> unat (0x08001000 :: u32) + unat (0x1000 :: u32) \<le> unat (0x08000000 :: u32) + unat (0x2000 :: u32)"
    by (simp add: page_aligned_def PAGE_SIZE_def)
  show ?thesis
    using h side heap_free_round_trip [OF h, of "0x1000" "0x08001000" read_write]
    by (simp add: sample_process_fields)
qed

end
